theory Spec2Isabelle
  imports Complex_Main "HOL-Library.Product_Lexorder"
begin

chapter \<open>The ingestion worker: definitions\<close>

section \<open>Data model\<close>

text \<open>
  A JavaScript number as far as the worker distinguishes it: not-a-number, the two
  infinities, or a finite value. Rounding to double precision is not modelled.
\<close>

datatype jsnum = NaN | PosInf | NegInf | Fin rat

text \<open>
  Subtraction of two numbers. The sort reads only whether a difference is negative, and
  for two finite doubles the sign of the rounded difference is the sign of the exact one.
\<close>

fun jsub :: "jsnum \<Rightarrow> jsnum \<Rightarrow> jsnum" where
  "jsub NaN y = NaN"
| "jsub x NaN = NaN"
| "jsub PosInf PosInf = NaN"
| "jsub NegInf NegInf = NaN"
| "jsub PosInf y = PosInf"
| "jsub NegInf y = NegInf"
| "jsub (Fin a) PosInf = NegInf"
| "jsub (Fin a) NegInf = PosInf"
| "jsub (Fin a) (Fin b) = Fin (a - b)"

text \<open>The test \<^verbatim>\<open>v < 0\<close> on a number; it is false for not-a-number.\<close>

fun negative :: "jsnum \<Rightarrow> bool" where
  "negative NegInf = True"
| "negative (Fin q) = (q < 0)"
| "negative v = False"


text \<open>
  \<^verbatim>\<open>TrendItem\<close> (\<^verbatim>\<open>worker/types\<close>): one ranked audio track of an acquisition cycle.
  The numeric fields \<^verbatim>\<open>rank\<close> and \<^verbatim>\<open>play_count\<close> are TypeScript \<^verbatim>\<open>number\<close>s. The parsers,
  the acquisition orchestrator and the pipeline hand items on as they are, with whatever
  number \<^verbatim>\<open>Number(...)\<close> produced (\<open>jsnum TrendItem\<close>). The record is polymorphic in the
  number type because the growth calculator, which is described by the specification
  only, is stated over integer counts. The field \<^verbatim>\<open>id\<close> is named \<open>item_id\<close> here.
\<close>

record 'n TrendItem =
  item_id :: string
  rank :: 'n
  title :: string
  author :: string
  play_count :: 'n
  cover_url :: string

text \<open>
  The two prepared statements that \<^verbatim>\<open>runPipeline\<close> enqueues per item, with their bound
  values (the platform is the constant \<^verbatim>\<open>"tiktok"\<close>): the upsert into \<^verbatim>\<open>audio_trends\<close>
  (item, growth rate, genre, vibe, \<^verbatim>\<open>updated_at\<close>) and the insert into
  \<^verbatim>\<open>audio_trend_history\<close> (id, \<^verbatim>\<open>snapshot_at\<close>, play count, rank).
\<close>

datatype statement =
    UpsertTrend "jsnum TrendItem" rat "string option" "string option" int
  | InsertHistory string int jsnum jsnum

section \<open>Circuit breaker (worker/tiktok.ts)\<close>

text \<open>
  \<^verbatim>\<open>CircuitBreakerState\<close> is a mutable object; the model passes it in and returns the
  updated value. \<^verbatim>\<open>Date.now()\<close> is a parameter of every function that reads the clock
  (epoch milliseconds, an integer).
\<close>

record CircuitBreakerState =
  isOpen :: bool
  failureCount :: int
  lastFailureTime :: int
  nextAttemptTime :: int

definition CIRCUIT_THRESHOLD :: int where
  "CIRCUIT_THRESHOLD = 5"

definition CIRCUIT_TIMEOUT :: int where
  "CIRCUIT_TIMEOUT = 300000"

text \<open>
  \<^verbatim>\<open>canExecuteCircuit(breaker)\<close>: true when closed; when open and the clock has reached
  \<^verbatim>\<open>nextAttemptTime\<close> it closes the breaker, zeroes \<^verbatim>\<open>failureCount\<close> and returns true;
  otherwise false. The result is the returned boolean and the breaker after the call.
\<close>

definition canExecuteCircuit :: "int \<Rightarrow> CircuitBreakerState \<Rightarrow> bool \<times> CircuitBreakerState" where
  "canExecuteCircuit now breaker =
     (if \<not> isOpen breaker then (True, breaker)
      else if now \<ge> nextAttemptTime breaker
           then (True, breaker\<lparr>isOpen := False, failureCount := 0\<rparr>)
           else (False, breaker))"

definition recordCircuitSuccess :: "CircuitBreakerState \<Rightarrow> CircuitBreakerState" where
  "recordCircuitSuccess breaker = breaker\<lparr>failureCount := 0, isOpen := False\<rparr>"

text \<open>
  \<^verbatim>\<open>recordCircuitFailure(breaker)\<close> reads the clock twice: \<open>now1\<close> is stored as
  \<^verbatim>\<open>lastFailureTime\<close>, \<open>now2\<close> is the reading that \<^verbatim>\<open>nextAttemptTime\<close> is computed from.
\<close>

definition recordCircuitFailure :: "int \<Rightarrow> int \<Rightarrow> CircuitBreakerState \<Rightarrow> CircuitBreakerState" where
  "recordCircuitFailure now1 now2 breaker =
     (let b1 = breaker\<lparr>failureCount := failureCount breaker + 1\<rparr>;
          b2 = b1\<lparr>lastFailureTime := now1\<rparr>
      in if failureCount b2 \<ge> CIRCUIT_THRESHOLD
         then b2\<lparr>isOpen := True, nextAttemptTime := now2 + CIRCUIT_TIMEOUT\<rparr>
         else b2)"

text \<open>Consecutive \<^verbatim>\<open>recordCircuitFailure\<close> calls, one per pair of clock readings.\<close>

fun recordFailures :: "(int \<times> int) list \<Rightarrow> CircuitBreakerState \<Rightarrow> CircuitBreakerState" where
  "recordFailures [] breaker = breaker"
| "recordFailures ((now1, now2) # ts) breaker =
     recordFailures ts (recordCircuitFailure now1 now2 breaker)"

text \<open>
  The initial value of both module-level breakers (\<^verbatim>\<open>puppeteerBreaker\<close>,
  \<^verbatim>\<open>proxyGridBreaker\<close>), and that breaker after five failures at the clock readings
  1000, 2000, ..., 5000.
\<close>

definition initialBreaker :: CircuitBreakerState where
  "initialBreaker = \<lparr>isOpen = False, failureCount = 0, lastFailureTime = 0, nextAttemptTime = 0\<rparr>"

definition openedBreaker :: CircuitBreakerState where
  "openedBreaker =
     recordFailures [(1000, 1000), (2000, 2000), (3000, 3000), (4000, 4000), (5000, 5000)]
       initialBreaker"

section \<open>Normalization (normalizeTrends, worker entry module)\<close>

text \<open>
  The inline re-ranking \<^verbatim>\<open>.map((item, index) => ({ ...item, rank: index + 1 }))\<close>, which
  \<^verbatim>\<open>normalizeTrends\<close> and the stale-data branches of the acquisition orchestrator share.
\<close>

definition rerank :: "jsnum TrendItem list \<Rightarrow> jsnum TrendItem list" where
  "rerank items =
     map (\<lambda>(index, item). item\<lparr>rank := Fin (of_nat index + 1)\<rparr>) (enumerate 0 items)"

text \<open>
  The \<^verbatim>\<open>forEach\<close> that fills \<^verbatim>\<open>deduped\<close>, a JavaScript \<^verbatim>\<open>Map\<close>: an association list in
  insertion order. \<^verbatim>\<open>deduped.has(item.id)\<close> is the lookup; \<^verbatim>\<open>deduped.set\<close> of an absent
  key appends.
\<close>

fun dedupeById ::
  "(string \<times> jsnum TrendItem) list \<Rightarrow> jsnum TrendItem list \<Rightarrow> (string \<times> jsnum TrendItem) list" where
  "dedupeById deduped [] = deduped"
| "dedupeById deduped (item # items) =
     dedupeById
       (if map_of deduped (item_id item) = None then deduped @ [(item_id item, item)]
        else deduped)
       items"

text \<open>
  \<^verbatim>\<open>Array.prototype.sort(comparefn)\<close>. ECMAScript's \<^verbatim>\<open>SortCompare\<close> calls the comparator and
  takes a not-a-number result as 0.
\<close>

definition sortCompare :: "('a \<Rightarrow> 'a \<Rightarrow> jsnum) \<Rightarrow> 'a \<Rightarrow> 'a \<Rightarrow> jsnum" where
  "sortCompare comparefn x y = (case comparefn x y of NaN \<Rightarrow> Fin 0 | v \<Rightarrow> v)"

text \<open>
  The order of the result is the engine's. The worker runs on V8, whose sort
  (\<^verbatim>\<open>ArrayTimSortImpl\<close>) treats an array of fewer than 64 elements as a single run: it
  takes the longest initial run that is non-descending, or strictly descending and then
  reversed in place (\<^verbatim>\<open>CountAndMakeRun\<close>), and inserts each remaining element into the
  sorted prefix at the position a binary search finds (\<^verbatim>\<open>BinaryInsertionSort\<close>). Every
  acquisition source returns at most 50 items, so the pipeline sorts only such arrays.
  For 64 elements or more V8 cuts the array into runs that it sorts in this way and then
  merges; the merging is not modelled, and the definition below sorts an array of any
  length as a single run.

  \<open>countRun\<close> is the loop of \<^verbatim>\<open>CountAndMakeRun\<close> after its first comparison: the number of
  further elements that continue the run.
\<close>

fun countRun :: "('a \<Rightarrow> 'a \<Rightarrow> jsnum) \<Rightarrow> bool \<Rightarrow> 'a \<Rightarrow> 'a list \<Rightarrow> nat" where
  "countRun comparefn isDescending previousElement [] = 0"
| "countRun comparefn isDescending previousElement (currentElement # rest) =
     (let order = sortCompare comparefn currentElement previousElement
      in if isDescending
         then (if \<not> negative order then 0
               else Suc (countRun comparefn isDescending currentElement rest))
         else (if negative order then 0
               else Suc (countRun comparefn isDescending currentElement rest)))"

definition countAndMakeRun :: "('a \<Rightarrow> 'a \<Rightarrow> jsnum) \<Rightarrow> 'a list \<Rightarrow> nat \<times> 'a list" where
  "countAndMakeRun comparefn workArray =
     (case workArray of
        [] \<Rightarrow> (0, [])
      | [x] \<Rightarrow> (1, [x])
      | elementHigh # elementLow # rest \<Rightarrow>
          (let order = sortCompare comparefn elementLow elementHigh;
               isDescending = negative order;
               runLength = 2 + countRun comparefn isDescending elementLow rest
           in (runLength,
               if isDescending
               then rev (take runLength workArray) @ drop runLength workArray
               else workArray)))"

text \<open>
  The binary search of \<^verbatim>\<open>BinaryInsertionSort\<close> for the pivot's position in
  \<^verbatim>\<open>workArray[left..right)\<close>; it is called with \<open>right\<close> at most the length of the array, so
  that \<open>mid\<close> is in range.
\<close>

function binarySearch :: "('a \<Rightarrow> 'a \<Rightarrow> jsnum) \<Rightarrow> 'a \<Rightarrow> 'a list \<Rightarrow> nat \<Rightarrow> nat \<Rightarrow> nat" where
  "binarySearch comparefn pivot workArray left right =
     (if left < right
      then
        (let mid = left + (right - left) div 2;
             order = sortCompare comparefn pivot (workArray ! mid)
         in if negative order then binarySearch comparefn pivot workArray left mid
            else binarySearch comparefn pivot workArray (mid + 1) right)
      else left)"
  by pat_completeness auto
termination
  by (relation "measure (\<lambda>(comparefn, pivot, workArray, left, right). right - left)") auto

declare binarySearch.simps [simp del]

text \<open>
  The outer loop of \<^verbatim>\<open>BinaryInsertionSort\<close>: \<open>sortedPrefix\<close> is \<^verbatim>\<open>workArray[0..start)\<close>, the
  second list is \<^verbatim>\<open>workArray[start..high)\<close>. Each pivot is placed at the position found,
  the elements from there on moving up by one.
\<close>

fun binaryInsertionSort :: "('a \<Rightarrow> 'a \<Rightarrow> jsnum) \<Rightarrow> 'a list \<Rightarrow> 'a list \<Rightarrow> 'a list" where
  "binaryInsertionSort comparefn sortedPrefix [] = sortedPrefix"
| "binaryInsertionSort comparefn sortedPrefix (pivot # rest) =
     (let left = binarySearch comparefn pivot sortedPrefix 0 (length sortedPrefix)
      in binaryInsertionSort comparefn
           (take left sortedPrefix @ pivot # drop left sortedPrefix) rest)"

definition arraySort :: "('a \<Rightarrow> 'a \<Rightarrow> jsnum) \<Rightarrow> 'a list \<Rightarrow> 'a list" where
  "arraySort comparefn array =
     (if length array < 2 then array
      else
        (case countAndMakeRun comparefn array of
           (currentRunLength, workArray) \<Rightarrow>
             if currentRunLength < length array
             then binaryInsertionSort comparefn (take currentRunLength workArray)
                    (drop currentRunLength workArray)
             else workArray))"


text \<open>The comparator \<^verbatim>\<open>(a, b) => a.rank - b.rank\<close>.\<close>

definition compareRank :: "jsnum TrendItem \<Rightarrow> jsnum TrendItem \<Rightarrow> jsnum" where
  "compareRank a b = jsub (rank a) (rank b)"

text \<open>
  \<^verbatim>\<open>Array.from(deduped.values()).sort((a, b) => a.rank - b.rank).slice(0, 50).map(...)\<close>.
\<close>

definition normalizeTrends :: "jsnum TrendItem list \<Rightarrow> jsnum TrendItem list" where
  "normalizeTrends items =
     rerank (take 50 (arraySort compareRank (map snd (dedupeById [] items))))"

text \<open>The first item of a list that carries a given id.\<close>

definition firstWithId :: "jsnum TrendItem list \<Rightarrow> string \<Rightarrow> jsnum TrendItem option" where
  "firstWithId items k = find (\<lambda>x. item_id x = k) items"



section \<open>Acquisition orchestrator (scrapeTikTokTrends, worker/tiktok.ts)\<close>

text \<open>
  What awaiting an external call does: it throws (the promise rejects) or returns a value.
\<close>

datatype 'a outcome = Throws | Returns 'a

text \<open>
  The bindings of \<^verbatim>\<open>Env\<close> that the worker reads. An optional string is absent (\<open>None\<close>) or
  present; JavaScript treats both the absent and the empty string as false (\<open>truthy\<close>).
  \<open>AI\<close> says whether the \<^verbatim>\<open>env.AI\<close> binding is present.
\<close>

record Env =
  PROXY_GRID_SECRET :: "string option"
  SLACK_WEBHOOK_URL :: "string option"
  AI_TAG_LIMIT :: "string option"
  HASHTAG_API_URL :: "string option"
  AI :: bool

definition truthy :: "string option \<Rightarrow> bool" where
  "truthy v = (case v of None \<Rightarrow> False | Some s \<Rightarrow> s \<noteq> [])"

text \<open>
  The external collaborators of one run, as the worker observes them: the outcome of the
  stale-data query of \<^verbatim>\<open>getStaleData\<close>, the outcome of \<^verbatim>\<open>scrapeWithPuppeteer\<close> at each
  attempt number and of the single \<^verbatim>\<open>scrapeWithProxyGrid\<close> call, and how long each of the two
  scrapes takes on the clock. Within one run no write to the store precedes a read of the
  stale data, so every \<^verbatim>\<open>getStaleData\<close> call of the run sees the same rows.
\<close>

record Sources =
  staleQuery :: "jsnum TrendItem list outcome"
  puppeteerScrape :: "nat \<Rightarrow> jsnum TrendItem list outcome"
  puppeteerTook :: "nat \<Rightarrow> int"
  proxyGridScrape :: "jsnum TrendItem list outcome"
  proxyGridTook :: int

text \<open>
  The alerts of \<^verbatim>\<open>sendAlert\<close>, one constructor per message of the source (with the count
  the message carries), and the observable effects of a run: sleeps, alerts, the cache batch of the orchestrator
  and the atomic batch of the pipeline. Log lines are not modelled.
\<close>

datatype alert =
    ProxyGridNotConfigured
  | StaleDataCircuitOpen nat
  | AllCircuitsOpen
  | ProxyGridFallbackUsed nat
  | StaleDataFallback
  | AllMethodsExhausted

datatype effect =
    Slept int
  | Alerted alert
  | CacheWritten "jsnum TrendItem list"
  | BatchExecuted "statement list"

text \<open>
  The module-level mutable state (the two breakers), the clock that \<^verbatim>\<open>Date.now()\<close> reads,
  and the trace of effects. The clock advances by the delay of every \<^verbatim>\<open>sleep\<close> and by the
  duration of every scrape; store queries, tagging calls and alert posts take no time in
  the model.
\<close>

record World =
  now :: int
  puppeteerBreaker :: CircuitBreakerState
  proxyGridBreaker :: CircuitBreakerState
  effects :: "effect list"

definition MAX_RETRIES :: nat where
  "MAX_RETRIES = 3"

definition INITIAL_RETRY_DELAY :: int where
  "INITIAL_RETRY_DELAY = 1000"

definition calculateRetryDelay :: "nat \<Rightarrow> int" where
  "calculateRetryDelay attempt = min (INITIAL_RETRY_DELAY * 2 ^ attempt) 10000"

definition sleep :: "int \<Rightarrow> World \<Rightarrow> World" where
  "sleep ms w = w\<lparr>now := now w + ms, effects := effects w @ [Slept ms]\<rparr>"

text \<open>\<^verbatim>\<open>getStaleData\<close>: the rows of the query, or the empty list when the query throws.\<close>

definition getStaleData :: "Sources \<Rightarrow> jsnum TrendItem list" where
  "getStaleData src = (case staleQuery src of Throws \<Rightarrow> [] | Returns rows \<Rightarrow> rows)"

text \<open>
  \<^verbatim>\<open>cacheResults\<close>: one batch of upserts when there is at least one item; a failure of the
  batch is caught and logged. The effect records that the batch was issued.
\<close>

definition cacheResults :: "jsnum TrendItem list \<Rightarrow> World \<Rightarrow> World" where
  "cacheResults data w =
     (if data \<noteq> [] then w\<lparr>effects := effects w @ [CacheWritten data]\<rparr> else w)"

text \<open>
  \<^verbatim>\<open>sendAlert\<close> returns at once without a webhook URL; a failure of the post is caught.
  Call sites do not await it.
\<close>

definition sendAlert :: "Env \<Rightarrow> alert \<Rightarrow> World \<Rightarrow> World" where
  "sendAlert env a w =
     (if \<not> truthy (SLACK_WEBHOOK_URL env) then w
      else w\<lparr>effects := effects w @ [Alerted a]\<rparr>)"

text \<open>
  The end of \<^verbatim>\<open>scrapeWithProxyGridFallback\<close>, reached when the proxy-grid attempt returned
  nothing or threw: serve stale data re-ranked, or the empty list.
\<close>

definition staleAfterProxyGridFailure :: "Env \<Rightarrow> Sources \<Rightarrow> World \<Rightarrow> jsnum TrendItem list \<times> World" where
  "staleAfterProxyGridFailure env src w =
     (let staleData = getStaleData src
      in if staleData \<noteq> [] then (rerank staleData, sendAlert env StaleDataFallback w)
         else ([], if truthy (SLACK_WEBHOOK_URL env) then sendAlert env AllMethodsExhausted w
                   else w))"

definition scrapeWithProxyGridFallback :: "Env \<Rightarrow> Sources \<Rightarrow> World \<Rightarrow> jsnum TrendItem list \<times> World" where
  "scrapeWithProxyGridFallback env src w =
     (if \<not> truthy (PROXY_GRID_SECRET env)
      then ([], if truthy (SLACK_WEBHOOK_URL env) then sendAlert env ProxyGridNotConfigured w
                else w)
      else
        (case canExecuteCircuit (now w) (proxyGridBreaker w) of
           (False, b) \<Rightarrow>
             (let w1 = w\<lparr>proxyGridBreaker := b\<rparr>;
                  staleData = getStaleData src
              in if staleData \<noteq> []
                 then (rerank staleData,
                       sendAlert env (StaleDataCircuitOpen (length staleData)) w1)
                 else ([], if truthy (SLACK_WEBHOOK_URL env)
                           then sendAlert env AllCircuitsOpen w1 else w1))
         | (True, b) \<Rightarrow>
             (let w1 = w\<lparr>proxyGridBreaker := b\<rparr>;
                  w2 = w1\<lparr>now := now w1 + proxyGridTook src\<rparr>
              in case proxyGridScrape src of
                   Returns data \<Rightarrow>
                     if data \<noteq> []
                     then (data,
                           sendAlert env (ProxyGridFallbackUsed (length data))
                             (cacheResults data
                               (w2\<lparr>proxyGridBreaker :=
                                      recordCircuitSuccess (proxyGridBreaker w2)\<rparr>)))
                     else staleAfterProxyGridFailure env src
                            (w2\<lparr>proxyGridBreaker :=
                                   recordCircuitFailure (now w2) (now w2) (proxyGridBreaker w2)\<rparr>)
                 | Throws \<Rightarrow>
                     staleAfterProxyGridFailure env src
                       (w2\<lparr>proxyGridBreaker :=
                              recordCircuitFailure (now w2) (now w2) (proxyGridBreaker w2)\<rparr>))))"

text \<open>
  The retry loop \<^verbatim>\<open>for (let attempt = 1; attempt <= MAX_RETRIES; attempt++)\<close> of
  \<^verbatim>\<open>scrapeTikTokTrends\<close>, followed by the call of \<^verbatim>\<open>scrapeWithProxyGridFallback\<close> after the
  loop. A non-empty result records a success, caches and returns. An empty result is
  logged and the loop goes on to the next attempt. Only the \<^verbatim>\<open>catch\<close> block records a
  failure and sleeps (the sleep is skipped on the last attempt).
\<close>

function puppeteerAttempts :: "Env \<Rightarrow> Sources \<Rightarrow> nat \<Rightarrow> World \<Rightarrow> jsnum TrendItem list \<times> World" where
  "puppeteerAttempts env src attempt w =
     (if attempt \<le> MAX_RETRIES
      then
        (let w1 = w\<lparr>now := now w + puppeteerTook src attempt\<rparr>
         in case puppeteerScrape src attempt of
              Returns data \<Rightarrow>
                if data \<noteq> []
                then (data,
                      cacheResults data
                        (w1\<lparr>puppeteerBreaker := recordCircuitSuccess (puppeteerBreaker w1)\<rparr>))
                else puppeteerAttempts env src (attempt + 1) w1
            | Throws \<Rightarrow>
                (let w2 = w1\<lparr>puppeteerBreaker :=
                               recordCircuitFailure (now w1) (now w1) (puppeteerBreaker w1)\<rparr>;
                     w3 = (if attempt < MAX_RETRIES
                           then sleep (calculateRetryDelay (attempt - 1)) w2 else w2)
                 in puppeteerAttempts env src (attempt + 1) w3))
      else scrapeWithProxyGridFallback env src w)"
  by pat_completeness auto

termination
  by (relation "measure (\<lambda>(env, src, attempt, w). Suc MAX_RETRIES - attempt)") auto

declare puppeteerAttempts.simps [simp del]

text \<open>
  The options of \<^verbatim>\<open>scrapeTikTokTrends\<close>; both are optional booleans, tested for truth.
\<close>

record ScrapeOptions =
  forceProxyGrid :: "bool option"
  useStaleFallback :: "bool option"

definition flag :: "bool option \<Rightarrow> bool" where
  "flag v = (case v of None \<Rightarrow> False | Some b \<Rightarrow> b)"

definition scrapeTikTokTrends :: "Env \<Rightarrow> Sources \<Rightarrow> ScrapeOptions \<Rightarrow> World \<Rightarrow> jsnum TrendItem list \<times> World" where
  "scrapeTikTokTrends env src options w =
     (let staleData = getStaleData src
      in if staleData \<noteq> [] \<and> flag (useStaleFallback options)
         then (rerank staleData, w)
         else
           (case canExecuteCircuit (now w) (puppeteerBreaker w) of
              (False, b) \<Rightarrow> scrapeWithProxyGridFallback env src (w\<lparr>puppeteerBreaker := b\<rparr>)
            | (True, b) \<Rightarrow>
                if flag (forceProxyGrid options)
                then scrapeWithProxyGridFallback env src (w\<lparr>puppeteerBreaker := b\<rparr>)
                else puppeteerAttempts env src 1 (w\<lparr>puppeteerBreaker := b\<rparr>)))"

text \<open>
  A scrape attempt fails when it throws or returns no items.
\<close>

definition failed :: "jsnum TrendItem list outcome \<Rightarrow> bool" where
  "failed r = (case r of Throws \<Rightarrow> True | Returns data \<Rightarrow> data = [])"

text \<open>
  Sample inputs: an environment with and without the proxy-grid credential, no options,
  the initial module state at clock 0, ten stale rows with their stored ranks, and sources
  whose primary scrape throws, or returns nothing, at every attempt.
\<close>

definition exampleEnv :: Env where
  "exampleEnv =
     \<lparr>PROXY_GRID_SECRET = Some ''grid-secret'', SLACK_WEBHOOK_URL = None, AI_TAG_LIMIT = None,
      HASHTAG_API_URL = None, AI = False\<rparr>"

definition noOptions :: ScrapeOptions where
  "noOptions = \<lparr>forceProxyGrid = None, useStaleFallback = None\<rparr>"

definition initialWorld :: World where
  "initialWorld =
     \<lparr>now = 0, puppeteerBreaker = initialBreaker, proxyGridBreaker = initialBreaker,
      effects = []\<rparr>"

definition staleItem :: "string \<Rightarrow> rat \<Rightarrow> jsnum TrendItem" where
  "staleItem k r =
     \<lparr>item_id = k, rank = Fin r, title = ''Stale'', author = ''Unknown'',
      play_count = Fin (10 * r), cover_url = ''''\<rparr>"

definition staleTen :: "jsnum TrendItem list" where
  "staleTen =
     [staleItem ''s0'' 4, staleItem ''s1'' 9, staleItem ''s2'' 1, staleItem ''s3'' 7,
      staleItem ''s4'' 2, staleItem ''s5'' 10, staleItem ''s6'' 3, staleItem ''s7'' 8,
      staleItem ''s8'' 5, staleItem ''s9'' 6]"

definition throwingSources :: Sources where
  "throwingSources =
     \<lparr>staleQuery = Returns staleTen, puppeteerScrape = (\<lambda>attempt. Throws),
      puppeteerTook = (\<lambda>attempt. 30000), proxyGridScrape = Throws, proxyGridTook = 500\<rparr>"

definition emptySources :: Sources where
  "emptySources =
     \<lparr>staleQuery = Returns staleTen, puppeteerScrape = (\<lambda>attempt. Returns []),
      puppeteerTook = (\<lambda>attempt. 30000), proxyGridScrape = Returns [], proxyGridTook = 500\<rparr>"

section \<open>Pipeline orchestrator (runPipeline, worker entry module)\<close>

record HistoryRow =
  h_id :: string
  h_play_count :: int
  h_rank :: int
  snapshot_at :: int

record TagRow =
  tag_id :: string
  tag_genre :: "string option"
  tag_vibe :: "string option"

record TagResult =
  genre :: string
  vibe :: string

datatype hashtag_result = HashtagSkipped | HashtagEmpty | HashtagError | HashtagSuccess nat

text \<open>
  What the pipeline observes of its collaborators in one run: the outcome of the history
  query, of the tag query and of the final \<^verbatim>\<open>env.DB.batch\<close>; the outcome of the try block
  of \<^verbatim>\<open>tagAudioWithAI\<close> (model call, \<^verbatim>\<open>parseAiResponse\<close>, \<^verbatim>\<open>normalizeTags\<close>) for a title and
  an author; the keyword heuristic \<^verbatim>\<open>heuristicTags\<close>; the growth calculator
  \<^verbatim>\<open>calculateGrowthRate\<close> of \<^verbatim>\<open>worker/growth\<close>, which is not among the sources and is taken
  as a parameter, a function that returns a value for every input, as section 4.5 of the
  specification describes it; the result of the try block of \<^verbatim>\<open>maybeIngestHashtags\<close>; and the
  conversion \<^verbatim>\<open>Number(...)\<close> of a string.
\<close>

record Collaborators =
  historyQuery :: "HistoryRow list outcome"
  tagQuery :: "TagRow list outcome"
  batchOutcome :: "unit outcome"
  aiRun :: "string \<Rightarrow> string \<Rightarrow> TagResult outcome"
  heuristicTags :: "string \<Rightarrow> string \<Rightarrow> TagResult"
  growthOf :: "jsnum TrendItem \<Rightarrow> HistoryRow option \<Rightarrow> rat"
  hashtagIngest :: hashtag_result
  NumberOf :: "string \<Rightarrow> jsnum"

text \<open>What \<^verbatim>\<open>runPipeline\<close> can throw to its caller: the rejection of one of its awaited store calls.\<close>

datatype thrown = HistoryQueryFailed | TagQueryFailed | BatchFailed

datatype status = Success | Warning | Error

datatype source = Puppeteer | ProxyGrid | Stale

record PipelineResult =
  status :: status
  message :: "string option"
  count :: nat
  top_song :: "string option"
  tags_generated :: nat
  hashtag_ingest :: "hashtag_result option"
  source :: "source option"
  duration :: int

record PipelineOptions = ScrapeOptions +
  scheduled :: "bool option"
  manual :: "bool option"

text \<open>
  \<^verbatim>\<open>tagAudioWithAI\<close>: the heuristic without an AI binding; otherwise the result of the try
  block, or the heuristic when that throws.
\<close>

definition tagAudioWithAI :: "Env \<Rightarrow> Collaborators \<Rightarrow> string \<Rightarrow> string \<Rightarrow> TagResult" where
  "tagAudioWithAI env col t a =
     (if \<not> AI env then heuristicTags col t a
      else case aiRun col t a of
             Returns tags \<Rightarrow> tags
           | Throws \<Rightarrow> heuristicTags col t a)"

text \<open>
  \<^verbatim>\<open>shouldTag\<close>: \<^verbatim>\<open>!genre\<close> holds for \<^verbatim>\<open>null\<close> and for the empty string.
\<close>

definition shouldTag :: "string option \<Rightarrow> string option \<Rightarrow> bool" where
  "shouldTag g v =
     (let missingGenre = (\<not> truthy g \<or> g = Some ''unknown'');
          missingVibe = (\<not> truthy v \<or> v = Some ''mixed'')
      in missingGenre \<or> missingVibe)"

text \<open>
  \<^verbatim>\<open>parseTagLimit\<close>: \<^verbatim>\<open>Number(value ?? "15")\<close>; 15 unless the number is finite and positive;
  otherwise the number, capped at 50.
\<close>

definition parseTagLimit :: "(string \<Rightarrow> jsnum) \<Rightarrow> string option \<Rightarrow> rat" where
  "parseTagLimit number v =
     (case number (case v of None \<Rightarrow> ''15'' | Some s \<Rightarrow> s) of
        Fin parsed \<Rightarrow> if parsed \<le> 0 then 15 else min parsed 50
      | _ \<Rightarrow> 15)"

text \<open>
  \<^verbatim>\<open>getLatestHistoryMap\<close> and \<^verbatim>\<open>getExistingTagMap\<close>: no query for an empty id list; otherwise
  the rows of the query are stored by id, a later row replacing an earlier one.
\<close>

definition getLatestHistoryMap ::
  "Collaborators \<Rightarrow> string list \<Rightarrow> thrown + (string \<rightharpoonup> HistoryRow)" where
  "getLatestHistoryMap col ids =
     (if ids = [] then Inr Map.empty
      else case historyQuery col of
             Throws \<Rightarrow> Inl HistoryQueryFailed
           | Returns rows \<Rightarrow> Inr (foldl (\<lambda>m row. m(h_id row \<mapsto> row)) Map.empty rows))"

definition getExistingTagMap ::
  "Collaborators \<Rightarrow> string list \<Rightarrow> thrown + (string \<rightharpoonup> string option \<times> string option)" where
  "getExistingTagMap col ids =
     (if ids = [] then Inr Map.empty
      else case tagQuery col of
             Throws \<Rightarrow> Inl TagQueryFailed
           | Returns rows \<Rightarrow>
               Inr (foldl (\<lambda>m row. m(tag_id row \<mapsto> (tag_genre row, tag_vibe row))) Map.empty rows))"

definition maybeIngestHashtags :: "Env \<Rightarrow> Collaborators \<Rightarrow> hashtag_result" where
  "maybeIngestHashtags env col =
     (if \<not> truthy (HASHTAG_API_URL env) then HashtagSkipped else hashtagIngest col)"

text \<open>
  The state of the loop \<^verbatim>\<open>for (const item of normalized)\<close>: the counter \<^verbatim>\<open>tagsGenerated\<close>,
  the enqueued \<^verbatim>\<open>statements\<close>, and the trace of the calls of \<^verbatim>\<open>tagAudioWithAI\<close> (title and
  author of each call).
\<close>

record LoopState =
  tagsGenerated :: nat
  statements :: "statement list"
  tagCalls :: "(string \<times> string) list"

text \<open>
  \<^verbatim>\<open>existingTags?.genre ?? null\<close> and \<^verbatim>\<open>existingTags?.vibe ?? null\<close> for the entry of the tag
  map under the item's id.
\<close>

definition existingGenre :: "(string \<rightharpoonup> string option \<times> string option) \<Rightarrow> jsnum TrendItem \<Rightarrow> string option" where
  "existingGenre tagMap item =
     (case tagMap (item_id item) of None \<Rightarrow> None | Some tags \<Rightarrow> fst tags)"

definition existingVibe :: "(string \<rightharpoonup> string option \<times> string option) \<Rightarrow> jsnum TrendItem \<Rightarrow> string option" where
  "existingVibe tagMap item =
     (case tagMap (item_id item) of None \<Rightarrow> None | Some tags \<Rightarrow> snd tags)"

text \<open>
  The loop body for one item. The call of \<^verbatim>\<open>tagAudioWithAI\<close> happens only under the
  condition \<open>tagging\<close>; the trace \<open>tagCalls\<close> records it.
\<close>

definition processItem ::
  "Env \<Rightarrow> Collaborators \<Rightarrow> int \<Rightarrow> (string \<rightharpoonup> HistoryRow) \<Rightarrow>
   (string \<rightharpoonup> string option \<times> string option) \<Rightarrow> rat \<Rightarrow> jsnum TrendItem \<Rightarrow> LoopState \<Rightarrow> LoopState" where
  "processItem env col timestamp historyMap tagMap maxTags item st =
     (let history = historyMap (item_id item);
          growthRate = growthOf col item history;
          g0 = existingGenre tagMap item;
          v0 = existingVibe tagMap item;
          tagging = (shouldTag g0 v0 \<and> of_nat (tagsGenerated st) < maxTags);
          aiTags = tagAudioWithAI env col (title item) (author item);
          g = (if tagging then Some (genre aiTags) else g0);
          v = (if tagging then Some (vibe aiTags) else v0)
      in \<lparr>tagsGenerated = (if tagging then tagsGenerated st + 1 else tagsGenerated st),
          statements = statements st @
            [UpsertTrend item growthRate g v timestamp,
             InsertHistory (item_id item) timestamp (play_count item) (rank item)],
          tagCalls = (if tagging then tagCalls st @ [(title item, author item)]
                      else tagCalls st)\<rparr>)"

fun processItems ::
  "Env \<Rightarrow> Collaborators \<Rightarrow> int \<Rightarrow> (string \<rightharpoonup> HistoryRow) \<Rightarrow>
   (string \<rightharpoonup> string option \<times> string option) \<Rightarrow> rat \<Rightarrow> jsnum TrendItem list \<Rightarrow> LoopState \<Rightarrow> LoopState" where
  "processItems env col timestamp historyMap tagMap maxTags [] st = st"
| "processItems env col timestamp historyMap tagMap maxTags (item # items) st =
     processItems env col timestamp historyMap tagMap maxTags items
       (processItem env col timestamp historyMap tagMap maxTags item st)"

definition initialLoopState :: LoopState where
  "initialLoopState = \<lparr>tagsGenerated = 0, statements = [], tagCalls = []\<rparr>"

text \<open>
  \<^verbatim>\<open>runPipeline\<close>. The result is what the caller receives, a thrown error (\<open>Inl\<close>) or the
  returned result object (\<open>Inr\<close>), and the world after the run. There is no
  \<^verbatim>\<open>try\<close> around the awaited store calls in the function.
\<close>

definition runPipeline ::
  "Env \<Rightarrow> Sources \<Rightarrow> Collaborators \<Rightarrow> PipelineOptions \<Rightarrow> World \<Rightarrow> (thrown + PipelineResult) \<times> World" where
  "runPipeline env src col options w =
     (let startTime = now w;
          force = flag (forceProxyGrid options);
          stale = flag (useStaleFallback options);
          (trends, w1) =
             scrapeTikTokTrends env src
               \<lparr>forceProxyGrid = Some force, useStaleFallback = Some stale\<rparr> w
      in if trends = []
         then (Inr \<lparr>status = Warning,
                    message = Some ''No trends found, using stale data fallback'',
                    count = 0, top_song = None, tags_generated = 0, hashtag_ingest = None,
                    source = Some Stale, duration = now w1 - startTime\<rparr>, w1)
         else
           (let normalized = normalizeTrends trends
            in if normalized = []
               then (Inr \<lparr>status = Warning,
                          message = Some ''No trends found after normalization'',
                          count = 0, top_song = None, tags_generated = 0,
                          hashtag_ingest = None, source = Some Puppeteer,
                          duration = now w1 - startTime\<rparr>, w1)
               else
                 (let timestamp = now w1
                  in case getLatestHistoryMap col (map item_id normalized) of
                       Inl e \<Rightarrow> (Inl e, w1)
                     | Inr historyMap \<Rightarrow>
                         (case getExistingTagMap col (map item_id normalized) of
                            Inl e \<Rightarrow> (Inl e, w1)
                          | Inr tagMap \<Rightarrow>
                              (let maxTags = parseTagLimit (NumberOf col) (AI_TAG_LIMIT env);
                                   final = processItems env col timestamp historyMap tagMap
                                             maxTags normalized initialLoopState
                               in case batchOutcome col of
                                    Throws \<Rightarrow> (Inl BatchFailed, w1)
                                  | Returns u \<Rightarrow>
                                      (let w2 = w1\<lparr>effects := effects w1 @
                                                    [BatchExecuted (statements final)]\<rparr>;
                                           hashtagResult = maybeIngestHashtags env col
                                       in (Inr \<lparr>status = Success, message = None,
                                                 count = length normalized,
                                                 top_song =
                                                   (case normalized of [] \<Rightarrow> None
                                                    | first # rest \<Rightarrow> Some (title first)),
                                                 tags_generated = tagsGenerated final,
                                                 hashtag_ingest = Some hashtagResult,
                                                 source = Some (if force then ProxyGrid
                                                                else Puppeteer),
                                                 duration = now w2 - startTime\<rparr>, w2)))))))"





definition exampleCollaborators :: Collaborators where
  "exampleCollaborators =
     \<lparr>historyQuery = Returns [], tagQuery = Returns [], batchOutcome = Returns (),
      aiRun = (\<lambda>t a. Throws),
      heuristicTags = (\<lambda>t a. \<lparr>genre = ''unknown'', vibe = ''mixed''\<rparr>),
      growthOf = (\<lambda>item history. 0),
      hashtagIngest = HashtagEmpty,
      NumberOf = (\<lambda>s. if s = ''15'' then Fin 15 else if s = ''2'' then Fin 2 else NaN)\<rparr>"

text \<open>
  The options that \<^verbatim>\<open>runPipeline\<close> passes on to \<^verbatim>\<open>scrapeTikTokTrends\<close>: both flags, after
  the defaults of the destructuring.
\<close>

definition scrapeOptionsOf :: "PipelineOptions \<Rightarrow> ScrapeOptions" where
  "scrapeOptionsOf options =
     \<lparr>forceProxyGrid = Some (flag (forceProxyGrid options)),
      useStaleFallback = Some (flag (useStaleFallback options))\<rparr>"

text \<open>
  Sample inputs: a scheduled run, sources where every live source throws and there is no
  stale data either.
\<close>

definition scheduledRun :: PipelineOptions where
  "scheduledRun =
     \<lparr>forceProxyGrid = None, useStaleFallback = None, scheduled = Some True, manual = None\<rparr>"



section \<open>Growth calculator\<close>

text \<open>
  Modelled from the spec: \<^verbatim>\<open>calculateGrowthRate\<close> is imported by the worker from
  \<^verbatim>\<open>./worker/growth\<close>, a module that is not among the sources. Section 4.5 of the
  specification: without a previous snapshot the growth is zero; when the previous play
  count is positive, the growth is the percentage change of the play count relative to
  it; otherwise the rank improvement (previous rank minus current rank, so that moving
  toward rank 1 is positive) scaled by a bounded factor. The specification leaves the
  factor open; it is the parameter \<open>rankFactor\<close>. The result is a float in the source and a
  rational here.
\<close>

definition calculateGrowthRate :: "rat \<Rightarrow> int TrendItem \<Rightarrow> HistoryRow option \<Rightarrow> rat" where
  "calculateGrowthRate rankFactor current previous =
     (case previous of
        None \<Rightarrow> 0
      | Some prev \<Rightarrow>
          if h_play_count prev > 0
          then of_int (play_count current - h_play_count prev) / of_int (h_play_count prev) * 100
          else rankFactor * of_int (h_rank prev - rank current))"

section \<open>Response parsing (parseTikTokResponse, worker/tiktok.ts)\<close>

text \<open>
  A value as \<^verbatim>\<open>response.json()\<close> produces it. A member list stands for an object in the
  order of the text; a later duplicate key replaces an earlier one.
\<close>

datatype json =
    JNull
  | JBool bool
  | JNum jsnum
  | JStr string
  | JArr "json list"
  | JObj "(string \<times> json) list"

text \<open>
  The conversions \<^verbatim>\<open>String(v)\<close> and \<^verbatim>\<open>Number(v)\<close>: a string converts to itself and a number
  to itself; what the runtime makes of any other value is a parameter.
\<close>

record JsRuntime =
  stringOf :: "json \<Rightarrow> string"
  numberOf :: "json \<Rightarrow> jsnum"

definition String_js :: "JsRuntime \<Rightarrow> json \<Rightarrow> string" where
  "String_js rt v = (case v of JStr s \<Rightarrow> s | _ \<Rightarrow> stringOf rt v)"

definition Number_js :: "JsRuntime \<Rightarrow> json \<Rightarrow> jsnum" where
  "Number_js rt v = (case v of JNum n \<Rightarrow> n | _ \<Rightarrow> numberOf rt v)"

text \<open>
  Reading a property of a non-null value: the member of an object, \<^verbatim>\<open>undefined\<close> (\<open>None\<close>)
  when the key is absent or the value is not an object. None of the keys the parser reads
  is a property of an array, a string, a number or a boolean.
\<close>

definition field :: "json \<Rightarrow> string \<Rightarrow> json option" where
  "field v k = (case v of JObj members \<Rightarrow> map_of (rev members) k | _ \<Rightarrow> None)"

text \<open>The chain \<^verbatim>\<open>a ?? b ?? ... ?? d\<close>: the first operand that is neither undefined nor null.\<close>

fun coalesce :: "json option list \<Rightarrow> json \<Rightarrow> json" where
  "coalesce [] d = d"
| "coalesce (None # rest) d = coalesce rest d"
| "coalesce (Some JNull # rest) d = coalesce rest d"
| "coalesce (Some v # rest) d = v"

definition MAX_ITEMS :: nat where
  "MAX_ITEMS = 50"

datatype js_error = TypeError

text \<open>
  The loop \<^verbatim>\<open>for (const [index, item] of dataArray.entries())\<close> with its accumulators
  \<^verbatim>\<open>items\<close> and \<^verbatim>\<open>seen\<close>. Reading \<^verbatim>\<open>record.id\<close> of a null entry throws.
\<close>

fun parseEntries ::
  "JsRuntime \<Rightarrow> nat \<Rightarrow> json list \<Rightarrow> jsnum TrendItem list \<Rightarrow> string list \<Rightarrow>
   js_error + jsnum TrendItem list" where
  "parseEntries rt index [] items seen = Inr items"
| "parseEntries rt index (record # rest) items seen =
     (if record = JNull then Inl TypeError
      else
        (let k = String_js rt
                   (coalesce [field record ''id'', field record ''music_id'']
                      (JStr (''tiktok-'' @ stringOf rt (JNum (Fin (of_nat index))))))
         in if k \<in> set seen then parseEntries rt (index + 1) rest items seen
            else
              (let items' = items @
                     [\<lparr>item_id = k,
                       rank = Number_js rt
                                (coalesce [field record ''rank''] (JNum (Fin (of_nat index + 1)))),
                       title = String_js rt
                                 (coalesce [field record ''title'', field record ''name'']
                                    (JStr ''Unknown'')),
                       author = String_js rt
                                  (coalesce [field record ''author'', field record ''artist'']
                                     (JStr ''Unknown'')),
                       play_count = Number_js rt
                                      (coalesce [field record ''play_count'',
                                                 field record ''video_count''] (JNum (Fin 0))),
                       cover_url = String_js rt
                                     (coalesce [field record ''cover_url'', field record ''cover'']
                                        (JStr ''''))\<rparr>]
               in if length items' \<ge> MAX_ITEMS then Inr items'
                  else parseEntries rt (index + 1) rest items' (seen @ [k]))))"

text \<open>
  \<^verbatim>\<open>parseTikTokResponse\<close>: \<^verbatim>\<open>json.data ?? json\<close> (reading \<^verbatim>\<open>data\<close> of a null response throws),
  taken as the list of entries when it is an array and as the empty list otherwise.
\<close>

definition parseTikTokResponse :: "JsRuntime \<Rightarrow> json \<Rightarrow> js_error + jsnum TrendItem list" where
  "parseTikTokResponse rt response =
     (if response = JNull then Inl TypeError
      else
        (let data = coalesce [field response ''data''] response;
             dataArray = (case data of JArr entries \<Rightarrow> entries | _ \<Rightarrow> [])
         in parseEntries rt 0 dataArray [] []))"

text \<open>
  Two well-formed broker responses with one record each: one whose \<^verbatim>\<open>play_count\<close> is the
  number -5, one whose \<^verbatim>\<open>play_count\<close> is the string \<^verbatim>\<open>1.2M\<close>.
\<close>

definition negativeCountResponse :: json where
  "negativeCountResponse =
     JObj [(''data'',
            JArr [JObj [(''id'', JStr ''7301''), (''title'', JStr ''Song''),
                        (''author'', JStr ''Artist''), (''play_count'', JNum (Fin (- 5)))]])]"

definition suffixedCountResponse :: json where
  "suffixedCountResponse =
     JObj [(''data'',
            JArr [JObj [(''id'', JStr ''7302''), (''title'', JStr ''Song''),
                        (''author'', JStr ''Artist''), (''play_count'', JStr ''1.2M'')]])]"

chapter \<open>The ingestion worker: properties\<close>

section \<open>Circuit breaker: properties\<close>

lemma recordFailures_closed_count:
  "failureCount b + int (length ts) < CIRCUIT_THRESHOLD \<Longrightarrow> \<not> isOpen b \<Longrightarrow>
   failureCount (recordFailures ts b) = failureCount b + int (length ts) \<and>
   \<not> isOpen (recordFailures ts b)"
proof (induction ts arbitrary: b)
  case Nil
  then show ?case by simp
next
  case (Cons t ts)
  obtain n1 n2 where t: "t = (n1, n2)" by (cases t)
  let ?b = "recordCircuitFailure n1 n2 b"
  from Cons.prems have small: "failureCount b + 1 < CIRCUIT_THRESHOLD" by simp
  then have step: "failureCount ?b = failureCount b + 1" "\<not> isOpen ?b"
    using Cons.prems(2) by (simp_all add: recordCircuitFailure_def Let_def)
  from Cons.prems step have "failureCount ?b + int (length ts) < CIRCUIT_THRESHOLD"
    by simp
  from Cons.IH [OF this step(2)] step show ?case
    by (simp add: t)
qed

lemma five_failures_open:
  assumes "\<not> isOpen b" and "failureCount b = 0"
  shows "isOpen (recordFailures [t1, t2, t3, t4, (n1, n2)] b) \<and>
         failureCount (recordFailures [t1, t2, t3, t4, (n1, n2)] b) = 5 \<and>
         nextAttemptTime (recordFailures [t1, t2, t3, t4, (n1, n2)] b) = n2 + CIRCUIT_TIMEOUT"
proof -
  let ?b4 = "recordFailures [t1, t2, t3, t4] b"
  have "failureCount b + int (length [t1, t2, t3, t4]) < CIRCUIT_THRESHOLD"
    using assms by (simp add: CIRCUIT_THRESHOLD_def)
  from recordFailures_closed_count [OF this assms(1)]
  have four: "failureCount ?b4 = 4" "\<not> isOpen ?b4"
    using assms by simp_all
  have split: "recordFailures [t1, t2, t3, t4, (n1, n2)] b = recordCircuitFailure n1 n2 ?b4"
    by (cases t1; cases t2; cases t3; cases t4) simp
  show ?thesis
    unfolding split using four
    by (simp add: recordCircuitFailure_def Let_def CIRCUIT_THRESHOLD_def)
qed

lemma openedBreaker_eq:
  "openedBreaker =
     \<lparr>isOpen = True, failureCount = 5, lastFailureTime = 5000, nextAttemptTime = 305000\<rparr>"
  by (simp add: openedBreaker_def initialBreaker_def recordCircuitFailure_def Let_def
      CIRCUIT_THRESHOLD_def CIRCUIT_TIMEOUT_def)

text \<open>
  C2. With threshold 5, from a closed breaker with \<^verbatim>\<open>failureCount\<close> 0, five consecutive
  \<^verbatim>\<open>recordCircuitFailure\<close> calls (at any clock readings) open the breaker, so that
  \<^verbatim>\<open>canExecuteCircuit\<close> returns false while the clock is before \<^verbatim>\<open>nextAttemptTime\<close>
  (the last failure's reading plus the timeout) and returns true once the clock has
  reached it; and one \<^verbatim>\<open>recordCircuitSuccess\<close>, on any breaker, sets \<^verbatim>\<open>failureCount\<close>
  to 0 and \<^verbatim>\<open>isOpen\<close> to false.
\<close>

theorem circuit_breaker_transition:
  assumes "\<not> isOpen b" and "failureCount b = 0"
    and "b5 = recordFailures [t1, t2, t3, t4, (n1, n2)] b"
  shows "CIRCUIT_THRESHOLD = 5 \<and>
         isOpen b5 \<and>
         nextAttemptTime b5 = n2 + CIRCUIT_TIMEOUT \<and>
         (\<forall>clock. clock < nextAttemptTime b5 \<longrightarrow> fst (canExecuteCircuit clock b5) = False) \<and>
         (\<forall>clock. clock \<ge> nextAttemptTime b5 \<longrightarrow> fst (canExecuteCircuit clock b5) = True) \<and>
         (\<forall>b'. failureCount (recordCircuitSuccess b') = 0 \<and>
               isOpen (recordCircuitSuccess b') = False)"
proof -
  from five_failures_open [OF assms(1,2), of t1 t2 t3 t4 n1 n2] assms(3)
  have opened: "isOpen b5" "nextAttemptTime b5 = n2 + CIRCUIT_TIMEOUT"
    by simp_all
  have threshold: "CIRCUIT_THRESHOLD = 5"
    by (simp add: CIRCUIT_THRESHOLD_def)
  have blocked: "\<forall>clock. clock < nextAttemptTime b5 \<longrightarrow> fst (canExecuteCircuit clock b5) = False"
    using opened(1) by (simp add: canExecuteCircuit_def)
  have allowed: "\<forall>clock. clock \<ge> nextAttemptTime b5 \<longrightarrow> fst (canExecuteCircuit clock b5) = True"
    using opened(1) by (simp add: canExecuteCircuit_def)
  have reset: "\<forall>b'. failureCount (recordCircuitSuccess b') = 0 \<and>
                    isOpen (recordCircuitSuccess b') = False"
    by (simp add: recordCircuitSuccess_def)
  from threshold opened blocked allowed reset show ?thesis
    by blast
qed

theorem circuit_breaker_transition_witness:
  "isOpen openedBreaker \<and>
   nextAttemptTime openedBreaker = 305000 \<and>
   fst (canExecuteCircuit 304999 openedBreaker) = False \<and>
   fst (canExecuteCircuit 305000 openedBreaker) = True \<and>
   failureCount (recordCircuitSuccess openedBreaker) = 0 \<and>
   isOpen (recordCircuitSuccess openedBreaker) = False"
proof -
  have closed: "\<not> isOpen initialBreaker" "failureCount initialBreaker = 0"
    by (simp_all add: initialBreaker_def)
  note t = circuit_breaker_transition [OF closed openedBreaker_def]
  from t have next_at: "nextAttemptTime openedBreaker = 305000"
    by (simp add: CIRCUIT_TIMEOUT_def)
  from t have "304999 < nextAttemptTime openedBreaker \<longrightarrow>
      fst (canExecuteCircuit 304999 openedBreaker) = False"
    by blast
  with next_at have before: "fst (canExecuteCircuit 304999 openedBreaker) = False"
    by simp
  from t have "305000 \<ge> nextAttemptTime openedBreaker \<longrightarrow>
      fst (canExecuteCircuit 305000 openedBreaker) = True"
    by blast
  with next_at have after: "fst (canExecuteCircuit 305000 openedBreaker) = True"
    by simp
  from t next_at before after show ?thesis
    by blast
qed

text \<open>
  C3, as the claim states it, fails: the opened breaker admits the probe call at time
  305000, and one \<^verbatim>\<open>recordCircuitFailure\<close> for that probe leaves the breaker closed.
\<close>

theorem probe_failure_reopens_counterexample:
  "isOpen openedBreaker \<and>
   fst (canExecuteCircuit 305000 openedBreaker) = True \<and>
   isOpen (recordCircuitFailure 305001 305001 (snd (canExecuteCircuit 305000 openedBreaker)))
     = False"
  by (simp add: openedBreaker_eq canExecuteCircuit_def recordCircuitFailure_def Let_def
      CIRCUIT_THRESHOLD_def)

text \<open>
  C3, amended. Once an open breaker's timeout has elapsed, the next \<^verbatim>\<open>canExecuteCircuit\<close>
  call is allowed through and closes the breaker with \<^verbatim>\<open>failureCount\<close> 0 (there is no
  separate half-open state). If the probe call then fails, the single
  \<^verbatim>\<open>recordCircuitFailure\<close> leaves the breaker closed with \<^verbatim>\<open>failureCount\<close> 1; only the
  fifth consecutive failure after the reset opens it again.
\<close>

theorem probe_failure_after_timeout:
  assumes "isOpen b" and "clock \<ge> nextAttemptTime b"
    and "probe = snd (canExecuteCircuit clock b)"
  shows "fst (canExecuteCircuit clock b) = True \<and>
         isOpen probe = False \<and> failureCount probe = 0 \<and>
         isOpen (recordCircuitFailure n1 n2 probe) = False \<and>
         failureCount (recordCircuitFailure n1 n2 probe) = 1 \<and>
         isOpen (recordFailures [t1, t2, t3, t4] probe) = False \<and>
         isOpen (recordFailures [t1, t2, t3, t4, (m1, m2)] probe) = True"
proof -
  from assms have probe: "\<not> isOpen probe" "failureCount probe = 0"
    by (simp_all add: canExecuteCircuit_def)
  from assms have through: "fst (canExecuteCircuit clock b) = True"
    by (simp add: canExecuteCircuit_def)
  from probe have one: "isOpen (recordCircuitFailure n1 n2 probe) = False"
      "failureCount (recordCircuitFailure n1 n2 probe) = 1"
    by (simp_all add: recordCircuitFailure_def Let_def CIRCUIT_THRESHOLD_def)
  have "failureCount probe + int (length [t1, t2, t3, t4]) < CIRCUIT_THRESHOLD"
    using probe by (simp add: CIRCUIT_THRESHOLD_def)
  from recordFailures_closed_count [OF this probe(1)]
  have four: "isOpen (recordFailures [t1, t2, t3, t4] probe) = False"
    by simp
  from five_failures_open [OF probe, of t1 t2 t3 t4 m1 m2]
  have five: "isOpen (recordFailures [t1, t2, t3, t4, (m1, m2)] probe) = True"
    by simp
  from through probe one four five show ?thesis
    by simp
qed

theorem probe_failure_after_timeout_witness:
  "fst (canExecuteCircuit 305000 openedBreaker) = True \<and>
   failureCount (snd (canExecuteCircuit 305000 openedBreaker)) = 0 \<and>
   isOpen (recordCircuitFailure 305001 305002 (snd (canExecuteCircuit 305000 openedBreaker)))
     = False \<and>
   failureCount (recordCircuitFailure 305001 305002 (snd (canExecuteCircuit 305000 openedBreaker)))
     = 1"
proof -
  have opened: "isOpen openedBreaker" "305000 \<ge> nextAttemptTime openedBreaker"
    by (simp_all add: openedBreaker_eq)
  from probe_failure_after_timeout [OF opened refl, of 305001 305002]
  show ?thesis
    by simp
qed

section \<open>Normalization: properties\<close>

lemma dedupe_distinct:
  "distinct (map fst acc) \<Longrightarrow> distinct (map fst (dedupeById acc xs))"
proof (induction xs arbitrary: acc)
  case Nil
  then show ?case by simp
next
  case (Cons x xs)
  show ?case
  proof (cases "map_of acc (item_id x) = None")
    case True
    then have "item_id x \<notin> fst ` set acc" by (simp add: map_of_eq_None_iff)
    with Cons.prems have "distinct (map fst (acc @ [(item_id x, x)]))" by simp
    from Cons.IH [OF this] True show ?thesis by simp
  next
    case False
    from Cons.IH [OF Cons.prems] False show ?thesis by auto
  qed
qed

lemma dedupe_dom:
  "fst ` set (dedupeById acc xs) = fst ` set acc \<union> item_id ` set xs"
proof (induction xs arbitrary: acc)
  case Nil
  then show ?case by simp
next
  case (Cons x xs)
  show ?case
  proof (cases "map_of acc (item_id x) = None")
    case True
    with Cons.IH [of "acc @ [(item_id x, x)]"] show ?thesis by auto
  next
    case False
    then have "item_id x \<in> fst ` set acc" by (simp add: map_of_eq_None_iff)
    with False Cons.IH [of acc] show ?thesis by auto
  qed
qed

lemma dedupe_first:
  "(k, v) \<in> set (dedupeById acc xs) \<Longrightarrow>
   (k, v) \<in> set acc \<or> (k \<notin> fst ` set acc \<and> firstWithId xs k = Some v)"
proof (induction xs arbitrary: acc)
  case Nil
  then show ?case by simp
next
  case (Cons x xs)
  show ?case
  proof (cases "map_of acc (item_id x) = None")
    case True
    then have notin: "item_id x \<notin> fst ` set acc" by (simp add: map_of_eq_None_iff)
    from Cons.prems True have "(k, v) \<in> set (dedupeById (acc @ [(item_id x, x)]) xs)" by simp
    from Cons.IH [OF this] notin show ?thesis
      by (auto simp: firstWithId_def)
  next
    case False
    then have isin: "item_id x \<in> fst ` set acc" by (simp add: map_of_eq_None_iff)
    from Cons.prems False have "(k, v) \<in> set (dedupeById acc xs)" by simp
    from Cons.IH [OF this] isin show ?thesis
      by (auto simp: firstWithId_def)
  qed
qed


lemma survivors_keys:
  "map fst (dedupeById [] xs) = map item_id (map snd (dedupeById [] xs))"
proof -
  have "\<forall>p \<in> set (dedupeById [] xs). fst p = item_id (snd p)"
  proof
    fix p assume p: "p \<in> set (dedupeById [] xs)"
    then have "(fst p, snd p) \<in> set (dedupeById [] xs)" by simp
    from dedupe_first [OF this] have "firstWithId xs (fst p) = Some (snd p)" by simp
    then show "fst p = item_id (snd p)" by (auto simp: firstWithId_def find_Some_iff)
  qed
  then show ?thesis by (simp add: comp_def)
qed

lemma survivors_distinct: "distinct (map item_id (map snd (dedupeById [] xs)))"
  using dedupe_distinct [of "[]" xs] by (simp add: survivors_keys)

lemma survivors_ids: "item_id ` set (map snd (dedupeById [] xs)) = item_id ` set xs"
proof -
  have "item_id ` set (map snd (dedupeById [] xs)) = set (map item_id (map snd (dedupeById [] xs)))"
    by (simp only: set_map)
  also have "\<dots> = set (map fst (dedupeById [] xs))" by (simp only: survivors_keys)
  also have "\<dots> = item_id ` set xs" using dedupe_dom [of "[]" xs] by simp
  finally show ?thesis .
qed

lemma survivors_length: "length (dedupeById [] xs) = card (item_id ` set xs)"
proof -
  have "card (item_id ` set xs) = card (set (map item_id (map snd (dedupeById [] xs))))"
    using survivors_ids [of xs] by (simp only: set_map)
  also have "\<dots> = length (map item_id (map snd (dedupeById [] xs)))"
    by (rule distinct_card [OF survivors_distinct])
  finally show ?thesis by simp
qed




lemma countAndMakeRun_length:
  "length (snd (countAndMakeRun comparefn xs)) = length xs"
  by (auto simp: countAndMakeRun_def Let_def split: list.splits)


lemma binaryInsertionSort_length:
  "length (binaryInsertionSort comparefn p r) = length p + length r"
proof (induction r arbitrary: p)
  case Nil
  then show ?case by simp
next
  case (Cons pivot r)
  let ?l = "binarySearch comparefn pivot p 0 (length p)"
  have "length (take ?l p @ pivot # drop ?l p) = Suc (length p)"
    by simp
  with Cons.IH [of "take ?l p @ pivot # drop ?l p"] show ?case
    by (simp add: Let_def)
qed


lemma arraySort_length: "length (arraySort comparefn xs) = length xs"
proof -
  obtain n ys where c: "countAndMakeRun comparefn xs = (n, ys)"
    by (cases "countAndMakeRun comparefn xs")
  with countAndMakeRun_length [of comparefn xs] have "length ys = length xs" by simp
  with c show ?thesis
    by (simp add: arraySort_def binaryInsertionSort_length)
qed










lemma rerank_length: "length (rerank zs) = length zs"
  by (simp add: rerank_def)

lemma rerank_nth:
  "i < length zs \<Longrightarrow> rerank zs ! i = (zs ! i)\<lparr>rank := Fin (of_nat i + 1)\<rparr>"
  by (simp add: rerank_def nth_enumerate_eq)


lemma rerank_ranks: "map rank (rerank zs) = map (\<lambda>i. Fin (of_nat i)) [1..<Suc (length zs)]"
  by (rule nth_equalityI) (simp_all add: rerank_length rerank_nth del: upt_Suc)








section \<open>Acquisition orchestrator: properties\<close>

lemma stale_after_failure:
  assumes "getStaleData src = stale" and "stale \<noteq> []"
  shows "fst (staleAfterProxyGridFailure env src w) = rerank stale"
  using assms by (simp add: staleAfterProxyGridFailure_def Let_def)

lemma fallback_serves_stale:
  assumes "truthy (PROXY_GRID_SECRET env)" and "failed (proxyGridScrape src)"
    and "getStaleData src = stale" and "stale \<noteq> []"
  shows "fst (scrapeWithProxyGridFallback env src w) = rerank stale"
proof (cases "fst (canExecuteCircuit (now w) (proxyGridBreaker w))")
  case True
  then obtain b where c: "canExecuteCircuit (now w) (proxyGridBreaker w) = (True, b)"
    by (cases "canExecuteCircuit (now w) (proxyGridBreaker w)") simp
  show ?thesis
  proof (cases "proxyGridScrape src")
    case Throws
    with assms c show ?thesis
      by (simp add: scrapeWithProxyGridFallback_def Let_def stale_after_failure)
  next
    case (Returns data)
    with assms(2) have "data = []" by (simp add: failed_def)
    with Returns assms c show ?thesis
      by (simp add: scrapeWithProxyGridFallback_def Let_def stale_after_failure)
  qed
next
  case False
  then obtain b where c: "canExecuteCircuit (now w) (proxyGridBreaker w) = (False, b)"
    by (cases "canExecuteCircuit (now w) (proxyGridBreaker w)") simp
  with assms show ?thesis
    by (simp add: scrapeWithProxyGridFallback_def Let_def)
qed

lemma attempts_serve_stale:
  "\<forall>k. attempt \<le> k \<and> k \<le> MAX_RETRIES \<longrightarrow> failed (puppeteerScrape src k) \<Longrightarrow>
   truthy (PROXY_GRID_SECRET env) \<Longrightarrow> failed (proxyGridScrape src) \<Longrightarrow>
   getStaleData src = stale \<Longrightarrow> stale \<noteq> [] \<Longrightarrow>
   fst (puppeteerAttempts env src attempt w) = rerank stale"
proof (induction env src attempt w rule: puppeteerAttempts.induct)
  case (1 env src attempt w)
  from "1.prems"(1) have later: "\<forall>k. attempt + 1 \<le> k \<and> k \<le> MAX_RETRIES \<longrightarrow> failed (puppeteerScrape src k)"
    by simp
  show ?case
  proof (cases "attempt \<le> MAX_RETRIES")
    case False
    then show ?thesis
      using "1.prems" by (subst puppeteerAttempts.simps) (simp add: fallback_serves_stale)
  next
    case True
    with "1.prems"(1) have f: "failed (puppeteerScrape src attempt)" by simp
    show ?thesis
    proof (cases "puppeteerScrape src attempt")
      case Throws
      note ih = "1.IH"(1) [OF True refl Throws refl refl later "1.prems"(2-5)]
      show ?thesis
        using True Throws ih by (subst puppeteerAttempts.simps) (simp add: Let_def)
    next
      case (Returns data)
      with f have e: "data = []" by (simp add: failed_def)
      then have ne: "\<not> data \<noteq> []" by simp
      note ih = "1.IH"(2) [OF True refl Returns ne later "1.prems"(2-5)]
      show ?thesis
        using True Returns e ih by (subst puppeteerAttempts.simps) (simp add: Let_def)
    qed
  qed
qed

lemmas attempts_unfold =
  puppeteerAttempts.simps [of _ _ "Suc 0"] puppeteerAttempts.simps [of _ _ "Suc (Suc 0)"]
  puppeteerAttempts.simps [of _ _ "Suc (Suc (Suc 0))"]
  puppeteerAttempts.simps [of _ _ "Suc (Suc (Suc (Suc 0)))"]

text \<open>
  C4. Two runs from the initial state, with the proxy grid failing too. When the primary
  scrape returns an empty result at all three attempts, the run ends with the primary
  breaker untouched (\<^verbatim>\<open>failureCount\<close> 0) and without any sleep: the clock shows only the
  three scrapes and the proxy-grid call. When the primary scrape throws at all three
  attempts, the primary breaker has counted three failures and the run has slept 1000 ms
  and 2000 ms. In both runs the proxy-grid breaker has counted its one failure, also for
  the empty proxy-grid result.
\<close>

theorem empty_primary_result_not_recorded:
  "snd (scrapeTikTokTrends exampleEnv emptySources noOptions initialWorld) =
     \<lparr>now = 90500,
      puppeteerBreaker =
        \<lparr>isOpen = False, failureCount = 0, lastFailureTime = 0, nextAttemptTime = 0\<rparr>,
      proxyGridBreaker =
        \<lparr>isOpen = False, failureCount = 1, lastFailureTime = 90500, nextAttemptTime = 0\<rparr>,
      effects = []\<rparr> \<and>
   snd (scrapeTikTokTrends exampleEnv throwingSources noOptions initialWorld) =
     \<lparr>now = 93500,
      puppeteerBreaker =
        \<lparr>isOpen = False, failureCount = 3, lastFailureTime = 93000, nextAttemptTime = 0\<rparr>,
      proxyGridBreaker =
        \<lparr>isOpen = False, failureCount = 1, lastFailureTime = 93500, nextAttemptTime = 0\<rparr>,
      effects = [Slept 1000, Slept 2000]\<rparr>"
  by (simp add: scrapeTikTokTrends_def exampleEnv_def emptySources_def throwingSources_def
      noOptions_def initialWorld_def initialBreaker_def getStaleData_def staleTen_def flag_def
      canExecuteCircuit_def attempts_unfold MAX_RETRIES_def Let_def
      scrapeWithProxyGridFallback_def truthy_def recordCircuitFailure_def
      CIRCUIT_THRESHOLD_def staleAfterProxyGridFailure_def sendAlert_def sleep_def
      calculateRetryDelay_def INITIAL_RETRY_DELAY_def)

text \<open>
  C5. When both breakers start closed, the primary scrape fails (throws or returns no
  items) at each of the \<^verbatim>\<open>MAX_RETRIES\<close> = 3 attempts, the proxy-grid credential is
  configured and the single proxy-grid attempt fails, and the stale query returns 10
  rows, then \<^verbatim>\<open>scrapeTikTokTrends\<close> returns exactly those 10 rows, in array order, with
  ranks reassigned 1..10 (whatever the options are).
\<close>

theorem fallback_ordering:
  assumes "\<not> isOpen (puppeteerBreaker w)" and "\<not> isOpen (proxyGridBreaker w)"
    and "\<forall>k. 1 \<le> k \<and> k \<le> MAX_RETRIES \<longrightarrow> failed (puppeteerScrape src k)"
    and "truthy (PROXY_GRID_SECRET env)" and "failed (proxyGridScrape src)"
    and "staleQuery src = Returns stale" and "length stale = 10"
  shows "MAX_RETRIES = 3 \<and>
         fst (scrapeTikTokTrends env src options w) = rerank stale \<and>
         length (fst (scrapeTikTokTrends env src options w)) = 10 \<and>
         map rank (fst (scrapeTikTokTrends env src options w)) = map (\<lambda>i. Fin (of_nat i)) [1..<11] \<and>
         (\<forall>i < 10. fst (scrapeTikTokTrends env src options w) ! i
                      = (stale ! i)\<lparr>rank := Fin (of_nat i + 1)\<rparr>)"
proof -
  from assms(6) have stale: "getStaleData src = stale"
    by (simp add: getStaleData_def)
  from assms(7) have nonempty: "stale \<noteq> []"
    by auto
  note fallback = fallback_serves_stale [OF assms(4,5) stale nonempty]
  from assms(3) have "\<forall>k. Suc 0 \<le> k \<and> k \<le> MAX_RETRIES \<longrightarrow> failed (puppeteerScrape src k)"
    by simp
  note attempts = attempts_serve_stale [OF this assms(4,5) stale nonempty]
  have result: "fst (scrapeTikTokTrends env src options w) = rerank stale"
    using assms(1) stale nonempty fallback attempts
    by (simp add: scrapeTikTokTrends_def canExecuteCircuit_def)
  have ranks: "map rank (rerank stale) = map (\<lambda>i. Fin (of_nat i)) [1..<11]"
    using rerank_ranks [of stale] assms(7) by simp
  have items: "\<forall>i < 10. rerank stale ! i = (stale ! i)\<lparr>rank := Fin (of_nat i + 1)\<rparr>"
    using assms(7) by (simp add: rerank_nth)
  have "MAX_RETRIES = 3"
    by (simp add: MAX_RETRIES_def)
  with result ranks items assms(7) show ?thesis
    by (simp add: rerank_length)
qed

theorem fallback_ordering_witness:
  "map item_id (fst (scrapeTikTokTrends exampleEnv throwingSources noOptions initialWorld))
     = [''s0'', ''s1'', ''s2'', ''s3'', ''s4'', ''s5'', ''s6'', ''s7'', ''s8'', ''s9''] \<and>
   map rank (fst (scrapeTikTokTrends exampleEnv throwingSources noOptions initialWorld))
     = [Fin 1, Fin 2, Fin 3, Fin 4, Fin 5, Fin 6, Fin 7, Fin 8, Fin 9, Fin 10] \<and>
   map play_count (fst (scrapeTikTokTrends exampleEnv throwingSources noOptions initialWorld))
     = [Fin 40, Fin 90, Fin 10, Fin 70, Fin 20, Fin 100, Fin 30, Fin 80, Fin 50, Fin 60] \<and>
   map rank staleTen
     = [Fin 4, Fin 9, Fin 1, Fin 7, Fin 2, Fin 10, Fin 3, Fin 8, Fin 5, Fin 6]"
proof -
  have closed: "\<not> isOpen (puppeteerBreaker initialWorld)"
      "\<not> isOpen (proxyGridBreaker initialWorld)"
    by (simp_all add: initialWorld_def initialBreaker_def)
  have primary: "\<forall>k. 1 \<le> k \<and> k \<le> MAX_RETRIES \<longrightarrow> failed (puppeteerScrape throwingSources k)"
    by (simp add: throwingSources_def failed_def)
  have secondary: "truthy (PROXY_GRID_SECRET exampleEnv)" "failed (proxyGridScrape throwingSources)"
    by (simp_all add: exampleEnv_def truthy_def throwingSources_def failed_def)
  have stale: "staleQuery throwingSources = Returns staleTen" "length staleTen = 10"
    by (simp_all add: throwingSources_def staleTen_def)
  from fallback_ordering [OF closed primary secondary stale, of noOptions]
  have "fst (scrapeTikTokTrends exampleEnv throwingSources noOptions initialWorld)
          = rerank staleTen"
    by (elim conjE)
  then show ?thesis
    by (simp add: rerank_def staleTen_def staleItem_def)
qed

section \<open>Tagging quota: properties\<close>










section \<open>Pipeline orchestrator: properties\<close>

lemma normalizeTrends_length:
  "length (normalizeTrends items) = min 50 (card (item_id ` set items))"
  using survivors_length [of items]
  by (simp add: normalizeTrends_def rerank_length arraySort_length min.commute)

lemma normalizeTrends_nonempty:
  assumes "items \<noteq> []"
  shows "normalizeTrends items \<noteq> []"
proof -
  from assms have "item_id ` set items \<noteq> {}" by simp
  then have "0 < card (item_id ` set items)" by (simp add: card_gt_0_iff)
  then have "0 < length (normalizeTrends items)" by (simp add: normalizeTrends_length)
  then show ?thesis by simp
qed

lemma runPipeline_empty:
  assumes "scrapeTikTokTrends env src (scrapeOptionsOf options) w = ([], w1)"
  shows "runPipeline env src col options w =
     (Inr \<lparr>status = Warning, message = Some ''No trends found, using stale data fallback'',
            count = 0, top_song = None, tags_generated = 0, hashtag_ingest = None,
            source = Some Stale, duration = now w1 - now w\<rparr>, w1)"
  using assms by (simp add: runPipeline_def scrapeOptionsOf_def Let_def)

lemma runPipeline_history_throws:
  assumes "scrapeTikTokTrends env src (scrapeOptionsOf options) w = (trends, w1)"
    and "trends \<noteq> []" and "historyQuery col = Throws"
  shows "runPipeline env src col options w = (Inl HistoryQueryFailed, w1)"
  using assms normalizeTrends_nonempty [OF assms(2)]
  by (simp add: runPipeline_def scrapeOptionsOf_def Let_def getLatestHistoryMap_def)

lemma runPipeline_tags_throws:
  assumes "scrapeTikTokTrends env src (scrapeOptionsOf options) w = (trends, w1)"
    and "trends \<noteq> []" and "historyQuery col = Returns rows" and "tagQuery col = Throws"
  shows "runPipeline env src col options w = (Inl TagQueryFailed, w1)"
  using assms normalizeTrends_nonempty [OF assms(2)]
  by (simp add: runPipeline_def scrapeOptionsOf_def Let_def getLatestHistoryMap_def
      getExistingTagMap_def)

lemma runPipeline_batch_throws:
  assumes "scrapeTikTokTrends env src (scrapeOptionsOf options) w = (trends, w1)"
    and "trends \<noteq> []" and "historyQuery col = Returns rows" and "tagQuery col = Returns tags"
    and "batchOutcome col = Throws"
  shows "runPipeline env src col options w = (Inl BatchFailed, w1)"
  using assms normalizeTrends_nonempty [OF assms(2)]
  by (simp add: runPipeline_def scrapeOptionsOf_def Let_def getLatestHistoryMap_def
      getExistingTagMap_def)

lemma runPipeline_success:
  assumes "scrapeTikTokTrends env src (scrapeOptionsOf options) w = (trends, w1)"
    and "trends \<noteq> []" and "historyQuery col = Returns rows" and "tagQuery col = Returns tags"
    and "batchOutcome col = Returns u"
  shows "\<exists>r. fst (runPipeline env src col options w) = Inr r \<and> status r = Success \<and>
           count r = length (normalizeTrends trends) \<and>
           source r = Some (if flag (forceProxyGrid options) then ProxyGrid else Puppeteer)"
  using assms normalizeTrends_nonempty [OF assms(2)]
  by (simp add: runPipeline_def scrapeOptionsOf_def Let_def getLatestHistoryMap_def
      getExistingTagMap_def)

lemma scrape_serves_stale:
  assumes "\<forall>k. Suc 0 \<le> k \<and> k \<le> MAX_RETRIES \<longrightarrow> failed (puppeteerScrape src k)"
    and "truthy (PROXY_GRID_SECRET env)" and "failed (proxyGridScrape src)"
    and "getStaleData src = stale" and "stale \<noteq> []"
  shows "fst (scrapeTikTokTrends env src options w) = rerank stale"
proof -
  note fallback = fallback_serves_stale [OF assms(2-5)]
  note attempts = attempts_serve_stale [OF assms]
  obtain ok b where c: "canExecuteCircuit (now w) (puppeteerBreaker w) = (ok, b)"
    by (cases "canExecuteCircuit (now w) (puppeteerBreaker w)")
  show ?thesis
    using assms(4,5) fallback attempts c
    by (cases ok) (simp_all add: scrapeTikTokTrends_def)
qed

lemma example_stale_run:
  "fst (scrapeTikTokTrends exampleEnv throwingSources options initialWorld) = rerank staleTen"
proof (rule scrape_serves_stale)
  show "\<forall>k. Suc 0 \<le> k \<and> k \<le> MAX_RETRIES \<longrightarrow> failed (puppeteerScrape throwingSources k)"
    by (simp add: throwingSources_def failed_def)
  show "truthy (PROXY_GRID_SECRET exampleEnv)"
    by (simp add: exampleEnv_def truthy_def)
  show "failed (proxyGridScrape throwingSources)"
    by (simp add: throwingSources_def failed_def)
  show "getStaleData throwingSources = staleTen"
    by (simp add: throwingSources_def getStaleData_def)
  show "staleTen \<noteq> []"
    by (simp add: staleTen_def)
qed







text \<open>
  C10. Whenever \<^verbatim>\<open>runPipeline\<close> returns a result with status success, its \<^verbatim>\<open>source\<close> field
  is \<^verbatim>\<open>proxy-grid\<close> if the \<^verbatim>\<open>forceProxyGrid\<close> option is set and \<^verbatim>\<open>puppeteer\<close> otherwise,
  whatever the environment, the sources and the collaborators did; it is never
  \<^verbatim>\<open>stale\<close>.
\<close>

theorem success_source_from_option:
  assumes "fst (runPipeline env src col options w) = Inr r" and "status r = Success"
  shows "source r = Some (if flag (forceProxyGrid options) then ProxyGrid else Puppeteer) \<and>
         source r \<noteq> Some Stale"
proof -
  obtain trends w1 where
    run: "scrapeTikTokTrends env src (scrapeOptionsOf options) w = (trends, w1)"
    by (cases "scrapeTikTokTrends env src (scrapeOptionsOf options) w")
  have nonempty: "trends \<noteq> []"
  proof
    assume "trends = []"
    with run have "scrapeTikTokTrends env src (scrapeOptionsOf options) w = ([], w1)"
      by simp
    from runPipeline_empty [OF this, of col] assms show False
      by auto
  qed
  from assms(1) have h: "historyQuery col \<noteq> Throws"
    using runPipeline_history_throws [OF run nonempty, of col] by auto
  then obtain rows where rows: "historyQuery col = Returns rows"
    by (cases "historyQuery col") simp_all
  from assms(1) have "tagQuery col \<noteq> Throws"
    using runPipeline_tags_throws [OF run nonempty rows] by auto
  then obtain tagRows where tags: "tagQuery col = Returns tagRows"
    by (cases "tagQuery col") simp_all
  from assms(1) have "batchOutcome col \<noteq> Throws"
    using runPipeline_batch_throws [OF run nonempty rows tags] by auto
  then obtain u where batch: "batchOutcome col = Returns u"
    by (cases "batchOutcome col") simp_all
  from runPipeline_success [OF run nonempty rows tags batch] assms(1)
  have "source r = Some (if flag (forceProxyGrid options) then ProxyGrid else Puppeteer)"
    by auto
  then show ?thesis
    by simp
qed

theorem success_source_from_option_witness:
  "fst (scrapeTikTokTrends exampleEnv throwingSources (scrapeOptionsOf scheduledRun) initialWorld)
     = rerank staleTen \<and>
   (\<exists>r. fst (runPipeline exampleEnv throwingSources exampleCollaborators scheduledRun initialWorld)
           = Inr r \<and> status r = Success \<and> source r = Some Puppeteer)"
proof -
  obtain trends w1 where
    run: "scrapeTikTokTrends exampleEnv throwingSources (scrapeOptionsOf scheduledRun) initialWorld
            = (trends, w1)"
    by (cases "scrapeTikTokTrends exampleEnv throwingSources (scrapeOptionsOf scheduledRun)
          initialWorld")
  note stale = example_stale_run [of "scrapeOptionsOf scheduledRun"]
  with run have "trends = rerank staleTen" by simp
  then have nonempty: "trends \<noteq> []"
    by (simp add: rerank_def staleTen_def)
  have "\<exists>r. fst (runPipeline exampleEnv throwingSources exampleCollaborators scheduledRun
                  initialWorld) = Inr r \<and> status r = Success \<and>
           count r = length (normalizeTrends trends) \<and>
           source r = Some (if flag (forceProxyGrid scheduledRun) then ProxyGrid else Puppeteer)"
    by (rule runPipeline_success [OF run nonempty]) (simp_all add: exampleCollaborators_def)
  then obtain r where
    r: "fst (runPipeline exampleEnv throwingSources exampleCollaborators scheduledRun initialWorld)
          = Inr r" "status r = Success"
    by blast
  from success_source_from_option [OF r]
  have "source r = Some Puppeteer"
    by (simp add: scheduledRun_def flag_def)
  with r stale show ?thesis
    by blast
qed

section \<open>Growth calculator: properties\<close>

text \<open>
  C8. Without a previous snapshot the growth rate is 0. Against a previous play count of
  1000, a current play count of 1500 gives 50 (plus fifty percent, positive) and a
  current play count of 500 gives -50 (negative).
\<close>

theorem growth_rate_sign:
  "calculateGrowthRate rankFactor current None = 0 \<and>
   calculateGrowthRate rankFactor (current\<lparr>play_count := 1500\<rparr>)
     (Some (prev\<lparr>h_play_count := 1000\<rparr>)) = 50 \<and>
   0 < calculateGrowthRate rankFactor (current\<lparr>play_count := 1500\<rparr>)
     (Some (prev\<lparr>h_play_count := 1000\<rparr>)) \<and>
   calculateGrowthRate rankFactor (current\<lparr>play_count := 500\<rparr>)
     (Some (prev\<lparr>h_play_count := 1000\<rparr>)) = - 50 \<and>
   calculateGrowthRate rankFactor (current\<lparr>play_count := 500\<rparr>)
     (Some (prev\<lparr>h_play_count := 1000\<rparr>)) < 0"
  by (simp add: calculateGrowthRate_def)

section \<open>Response parsing: properties\<close>

text \<open>
  C9. \<^verbatim>\<open>parseTikTokResponse\<close> hands on whatever \<^verbatim>\<open>Number\<close> makes of the record's
  \<^verbatim>\<open>play_count\<close>: the negative number -5 stays -5, and the string \<^verbatim>\<open>1.2M\<close> becomes the
  runtime's conversion of that string (not-a-number in JavaScript), not 0.
\<close>

theorem parsed_play_count_not_normalised:
  "parseTikTokResponse rt negativeCountResponse =
     Inr [\<lparr>item_id = ''7301'', rank = Fin 1, title = ''Song'', author = ''Artist'',
           play_count = Fin (- 5), cover_url = ''''\<rparr>] \<and>
   parseTikTokResponse rt suffixedCountResponse =
     Inr [\<lparr>item_id = ''7302'', rank = Fin 1, title = ''Song'', author = ''Artist'',
           play_count = numberOf rt (JStr ''1.2M''), cover_url = ''''\<rparr>]"
  by (simp add: parseTikTokResponse_def negativeCountResponse_def suffixedCountResponse_def
      field_def String_js_def Number_js_def MAX_ITEMS_def Let_def)

end
